theory Spec2Isabelle
  imports Complex_Main
begin

section \<open>Data model\<close>

text \<open>
  The enumerations of \<^verbatim>\<open>app/core/prompts.py\<close>. Every member carries the string
  that the Python \<^verbatim>\<open>Enum\<close> gives it; \<^verbatim>\<open>ConversationStep(s)\<close> looks a member
  up by that string and raises \<^verbatim>\<open>ValueError\<close> when there is none, which the
  lookup functions below render as \<open>None\<close>.
\<close>

datatype ConversationStep =
    GREETING | COLLECT_BUDGET | COLLECT_INCOME | COLLECT_EMPLOYMENT | COLLECT_AMOUNT
  | PRESENT_OFFER | AWAITING_DECISION | HANDLE_OBJECTION | REQUEST_CLARIFICATION
  | CLOSE_POSITIVE | CLOSE_NEGATIVE | COMPLETED | ERROR

datatype ProductType =
    CREDIT_CARD | PERSONAL_CREDIT | INSURANCE | SAVINGS | MORTGAGE | INVESTMENT

datatype CustomerSegment = PREMIUM | STANDARD | BASIC | YOUTH | SENIOR

datatype IntentType = POSITIVE | NEGATIVE | NEUTRAL | REQUEST_INFO | OBJECTION | UNCLEAR

fun step_value :: "ConversationStep \<Rightarrow> string" where
  "step_value GREETING = ''greeting''"
| "step_value COLLECT_BUDGET = ''collect_budget''"
| "step_value COLLECT_INCOME = ''collect_income''"
| "step_value COLLECT_EMPLOYMENT = ''collect_employment''"
| "step_value COLLECT_AMOUNT = ''collect_amount''"
| "step_value PRESENT_OFFER = ''present_offer''"
| "step_value AWAITING_DECISION = ''awaiting_decision''"
| "step_value HANDLE_OBJECTION = ''handle_objection''"
| "step_value REQUEST_CLARIFICATION = ''request_clarification''"
| "step_value CLOSE_POSITIVE = ''close_positive''"
| "step_value CLOSE_NEGATIVE = ''close_negative''"
| "step_value COMPLETED = ''completed''"
| "step_value ERROR = ''error''"

fun product_value :: "ProductType \<Rightarrow> string" where
  "product_value CREDIT_CARD = ''credit_card''"
| "product_value PERSONAL_CREDIT = ''credit''"
| "product_value INSURANCE = ''insurance''"
| "product_value SAVINGS = ''savings''"
| "product_value MORTGAGE = ''mortgage''"
| "product_value INVESTMENT = ''investment''"

fun segment_value :: "CustomerSegment \<Rightarrow> string" where
  "segment_value PREMIUM = ''premium''"
| "segment_value STANDARD = ''standard''"
| "segment_value BASIC = ''basic''"
| "segment_value YOUTH = ''youth''"
| "segment_value SENIOR = ''senior''"

fun intent_value :: "IntentType \<Rightarrow> string" where
  "intent_value POSITIVE = ''positive''"
| "intent_value NEGATIVE = ''negative''"
| "intent_value NEUTRAL = ''neutral''"
| "intent_value REQUEST_INFO = ''request_info''"
| "intent_value OBJECTION = ''objection''"
| "intent_value UNCLEAR = ''unclear''"

definition all_steps :: "ConversationStep list" where
  "all_steps = [GREETING, COLLECT_BUDGET, COLLECT_INCOME, COLLECT_EMPLOYMENT, COLLECT_AMOUNT,
     PRESENT_OFFER, AWAITING_DECISION, HANDLE_OBJECTION, REQUEST_CLARIFICATION,
     CLOSE_POSITIVE, CLOSE_NEGATIVE, COMPLETED, ERROR]"

definition all_products :: "ProductType list" where
  "all_products = [CREDIT_CARD, PERSONAL_CREDIT, INSURANCE, SAVINGS, MORTGAGE, INVESTMENT]"

definition all_segments :: "CustomerSegment list" where
  "all_segments = [PREMIUM, STANDARD, BASIC, YOUTH, SENIOR]"

definition all_intents :: "IntentType list" where
  "all_intents = [POSITIVE, NEGATIVE, NEUTRAL, REQUEST_INFO, OBJECTION, UNCLEAR]"

text \<open>\<^verbatim>\<open>ConversationStep(s)\<close>, \<^verbatim>\<open>ProductType(s)\<close>, \<^verbatim>\<open>CustomerSegment(s)\<close>,
  \<^verbatim>\<open>IntentType(s)\<close>: the member with that value, \<open>None\<close> for \<^verbatim>\<open>ValueError\<close>.\<close>

definition ConversationStep_of :: "string \<Rightarrow> ConversationStep option" where
  "ConversationStep_of s = find (\<lambda>c. step_value c = s) all_steps"

definition ProductType_of :: "string \<Rightarrow> ProductType option" where
  "ProductType_of s = find (\<lambda>c. product_value c = s) all_products"

definition CustomerSegment_of :: "string \<Rightarrow> CustomerSegment option" where
  "CustomerSegment_of s = find (\<lambda>c. segment_value c = s) all_segments"

definition IntentType_of :: "string \<Rightarrow> IntentType option" where
  "IntentType_of s = find (\<lambda>c. intent_value c = s) all_intents"

text \<open>
  The values a \<^verbatim>\<open>Dict[str, Any]\<close> of the program holds. Python's \<^verbatim>\<open>bool\<close> is a
  subclass of \<^verbatim>\<open>int\<close>, so \<^verbatim>\<open>isinstance(v, (int, float))\<close> accepts it with the
  value 0 or 1. A \<^verbatim>\<open>float\<close> is modelled by the real number it denotes: rounding,
  infinities and NaN are outside the model.
\<close>

datatype pyval = PyNone | PyBool bool | PyInt int | PyFloat real | PyStr string

type_synonym pydict = "string \<rightharpoonup> pyval"

text \<open>\<^verbatim>\<open>isinstance(v, (int, float))\<close> together with the number \<open>v\<close> denotes.\<close>

fun number_of :: "pyval \<Rightarrow> real option" where
  "number_of (PyBool b) = Some (if b then 1 else 0)"
| "number_of (PyInt i) = Some (real_of_int i)"
| "number_of (PyFloat r) = Some r"
| "number_of PyNone = None"
| "number_of (PyStr s) = None"

text \<open>\<^verbatim>\<open>d.get(k)\<close>: a missing key reads as \<^verbatim>\<open>None\<close>.\<close>

definition dict_get :: "pydict \<Rightarrow> string \<Rightarrow> pyval" where
  "dict_get d k = (case d k of None \<Rightarrow> PyNone | Some v \<Rightarrow> v)"

text \<open>\<^verbatim>\<open>int(x)\<close> on a float: truncation towards zero.\<close>

definition py_int :: "real \<Rightarrow> int" where
  "py_int x = (if 0 \<le> x then \<lfloor>x\<rfloor> else \<lceil>x\<rceil>)"

section \<open>Flow transition table (\<^verbatim>\<open>ConversationFlowManager\<close>)\<close>

definition has_valid_income :: "pydict \<Rightarrow> bool" where
  "has_valid_income data =
     (case number_of (dict_get data ''monthly_income'') of
        None \<Rightarrow> False
      | Some income \<Rightarrow> 500 \<le> income \<and> income \<le> 50000)"

definition valid_types :: "string list" where
  "valid_types = [''employee'', ''business_owner'', ''freelancer'', ''retired'', ''student'',
     ''unemployed'']"

definition has_valid_employment :: "pydict \<Rightarrow> bool" where
  "has_valid_employment data =
     (case dict_get data ''employment_type'' of
        PyStr employment \<Rightarrow> employment \<in> set valid_types
      | _ \<Rightarrow> False)"

definition has_valid_amount :: "pydict \<Rightarrow> bool" where
  "has_valid_amount data =
     (case number_of (dict_get data ''requested_amount'') of
        None \<Rightarrow> False
      | Some amount \<Rightarrow> 0 < amount)"

definition get_clarification_next_step :: "pydict \<Rightarrow> string" where
  "get_clarification_next_step data =
     (if \<not> has_valid_income data then step_value COLLECT_INCOME
      else if \<not> has_valid_employment data then step_value COLLECT_EMPLOYMENT
      else if \<not> has_valid_amount data then step_value COLLECT_AMOUNT
      else step_value PRESENT_OFFER)"

text \<open>
  \<^verbatim>\<open>get_next_step\<close>. Both enum conversions sit inside the \<^verbatim>\<open>try\<close>; a
  \<^verbatim>\<open>ValueError\<close> from either is caught and the result is the \<^verbatim>\<open>error\<close> step.
\<close>

definition get_next_step :: "string \<Rightarrow> string \<Rightarrow> pydict \<Rightarrow> string" where
  "get_next_step current_step intent collected_data =
     (case ConversationStep_of current_step of
        None \<Rightarrow> step_value ERROR
      | Some current \<Rightarrow>
     (case IntentType_of intent of
        None \<Rightarrow> step_value ERROR
      | Some intent_type \<Rightarrow>
          if intent_type = NEGATIVE then step_value CLOSE_NEGATIVE
          else if current = GREETING then
            (if intent_type = POSITIVE then step_value COLLECT_INCOME
             else step_value REQUEST_CLARIFICATION)
          else if current = COLLECT_INCOME then
            (if has_valid_income collected_data then step_value COLLECT_EMPLOYMENT
             else step_value COLLECT_INCOME)
          else if current = COLLECT_EMPLOYMENT then
            (if has_valid_employment collected_data then step_value COLLECT_AMOUNT
             else step_value COLLECT_EMPLOYMENT)
          else if current = COLLECT_AMOUNT then
            (if has_valid_amount collected_data then step_value PRESENT_OFFER
             else step_value COLLECT_AMOUNT)
          else if current = PRESENT_OFFER then
            (if intent_type = POSITIVE then step_value AWAITING_DECISION
             else if intent_type = REQUEST_INFO then step_value PRESENT_OFFER
             else if intent_type = OBJECTION then step_value HANDLE_OBJECTION
             else step_value REQUEST_CLARIFICATION)
          else if current = AWAITING_DECISION then
            (if intent_type = POSITIVE then step_value CLOSE_POSITIVE
             else if intent_type = NEGATIVE then step_value CLOSE_NEGATIVE
             else step_value AWAITING_DECISION)
          else if current = HANDLE_OBJECTION then
            (if intent_type = POSITIVE then step_value AWAITING_DECISION
             else if intent_type = REQUEST_INFO then step_value PRESENT_OFFER
             else step_value CLOSE_NEGATIVE)
          else if current = REQUEST_CLARIFICATION then
            get_clarification_next_step collected_data
          else step_value ERROR))"

definition is_conversation_complete :: "string \<Rightarrow> bool" where
  "is_conversation_complete current_step =
     (current_step \<in> set [step_value CLOSE_POSITIVE, step_value CLOSE_NEGATIVE,
        step_value COMPLETED, step_value ERROR])"

text \<open>
  \<^verbatim>\<open>get_conversation_progress\<close> returns a dictionary; the record has one field per
  key, the keys absent from the \<^verbatim>\<open>except\<close> branch's dictionary being optional.
  \<^verbatim>\<open>int((k / n) * 100)\<close> is computed over the reals; for the quotients that occur
  (\<open>k \<le> 6\<close> of 7, \<open>k \<le> 3\<close> of 3) the double-precision product truncates to the same
  integer.
\<close>

record progress =
  p_current_step :: string
  progress_percentage :: int
  data_completeness :: int
  is_complete :: bool
  collected_fields :: "nat option"
  total_fields :: "nat option"
  p_error :: bool

definition step_order :: "ConversationStep list" where
  "step_order = [GREETING, COLLECT_INCOME, COLLECT_EMPLOYMENT, COLLECT_AMOUNT, PRESENT_OFFER,
     AWAITING_DECISION, CLOSE_POSITIVE]"

fun index_of :: "'a \<Rightarrow> 'a list \<Rightarrow> nat option" where
  "index_of x [] = None"
| "index_of x (y # ys) =
     (if x = y then Some 0 else map_option Suc (index_of x ys))"

definition percent_of :: "nat \<Rightarrow> nat \<Rightarrow> int" where
  "percent_of k n = py_int ((real k / real n) * 100)"

definition required_fields :: "string list" where
  "required_fields = [''monthly_income'', ''employment_type'', ''requested_amount'']"

definition completed_fields :: "pydict \<Rightarrow> nat" where
  "completed_fields collected_data =
     length (filter (\<lambda>field. dict_get collected_data field \<noteq> PyNone) required_fields)"

definition get_conversation_progress :: "string \<Rightarrow> pydict \<Rightarrow> progress" where
  "get_conversation_progress current_step collected_data =
     (case ConversationStep_of current_step of
        None \<Rightarrow>
          \<lparr>p_current_step = current_step, progress_percentage = 0, data_completeness = 0,
            is_complete = False, collected_fields = None, total_fields = None, p_error = True\<rparr>
      | Some step \<Rightarrow>
          \<lparr>p_current_step = current_step,
            progress_percentage =
              (case index_of step step_order of
                 Some current_index \<Rightarrow> percent_of current_index (length step_order)
               | None \<Rightarrow> 50),
            data_completeness =
              percent_of (completed_fields collected_data) (length required_fields),
            is_complete = is_conversation_complete current_step,
            collected_fields = Some (completed_fields collected_data),
            total_fields = Some (length required_fields),
            p_error = False\<rparr>)"

section \<open>Propensity scores\<close>

text \<open>Exceptions of the Python run time that the modelled functions can raise.\<close>

datatype py_error = TypeError | ValueError | KeyError

text \<open>Truth value of an object, as \<^verbatim>\<open>if v:\<close> tests it.\<close>

fun truthy :: "pyval \<Rightarrow> bool" where
  "truthy PyNone = False"
| "truthy (PyBool b) = b"
| "truthy (PyInt i) = (i \<noteq> 0)"
| "truthy (PyFloat r) = (r \<noteq> 0)"
| "truthy (PyStr s) = (s \<noteq> [])"

text \<open>
  \<^verbatim>\<open>calculate_propensity_score\<close> of \<^verbatim>\<open>app/core/utils.py\<close>, the formula used when a
  session is created. Both arguments are dictionaries. Comparing a string with a number
  raises \<^verbatim>\<open>TypeError\<close>.
\<close>

definition segment_multipliers :: "pyval \<Rightarrow> real" where
  "segment_multipliers segment =
     (if segment = PyStr ''premium'' then 1.3
      else if segment = PyStr ''standard'' then 1.0
      else if segment = PyStr ''basic'' then 0.8
      else 1.0)"

definition employment_multipliers :: "pyval \<Rightarrow> real option" where
  "employment_multipliers employment =
     (if employment = PyStr ''employee'' then Some 1.1
      else if employment = PyStr ''business_owner'' then Some 1.2
      else if employment = PyStr ''freelancer'' then Some 0.9
      else if employment = PyStr ''retired'' then Some 0.8
      else None)"

definition utils_calculate_propensity_score :: "pydict \<Rightarrow> pydict \<Rightarrow> py_error + real" where
  "utils_calculate_propensity_score user_data collected_data =
     (let score = 0.5;
          segment = (case user_data ''customer_segment'' of
                       None \<Rightarrow> PyStr ''standard'' | Some v \<Rightarrow> v);
          score = score * segment_multipliers segment;
          monthly_income = dict_get collected_data ''monthly_income''
      in case (if truthy monthly_income then
                 (case number_of monthly_income of
                    None \<Rightarrow> Inl TypeError
                  | Some m \<Rightarrow>
                      if m > 5000 then Inr (score * 1.2)
                      else if m > 2000 then Inr (score * 1.1)
                      else if m < 1000 then Inr (score * 0.8)
                      else Inr score)
               else Inr score) of
           Inl e \<Rightarrow> Inl e
         | Inr score \<Rightarrow>
             (let employment = dict_get collected_data ''employment_type'';
                  score = (case employment_multipliers employment of
                             Some m \<Rightarrow> score * m | None \<Rightarrow> score)
              in Inr (max 0.1 (min 1.0 score))))"

text \<open>
  \<^verbatim>\<open>calculate_propensity_score\<close> of \<^verbatim>\<open>app/api/customers.py\<close>, the formula used when
  a lead is created. Its first argument is a \<^verbatim>\<open>UserData\<close> object; a
  \<^verbatim>\<open>Decimal\<close> is modelled by the real number it denotes. The second argument is
  not read.
\<close>

record UserData =
  user_id :: string
  campaign_id :: string
  product_type :: string
  first_name :: string
  last_name :: string
  phone :: string
  customer_segment :: string
  current_products :: "string list"
  credit_score :: "int option"
  monthly_income :: "real option"

definition safe_decimal_to_float :: "real option \<Rightarrow> real" where
  "safe_decimal_to_float v = (case v of None \<Rightarrow> 0.0 | Some d \<Rightarrow> d)"

definition safe_int :: "int option \<Rightarrow> int" where
  "safe_int v = (case v of None \<Rightarrow> 0 | Some i \<Rightarrow> py_int (real_of_int i))"

definition segment_scores :: "string \<Rightarrow> real" where
  "segment_scores segment =
     (if segment = ''premium'' then 0.8
      else if segment = ''standard'' then 0.6
      else if segment = ''basic'' then 0.4
      else 0.5)"

definition customers_calculate_propensity_score :: "UserData \<Rightarrow> pydict \<Rightarrow> real" where
  "customers_calculate_propensity_score user_data collected_data =
     (let score = 0.0;
          score = score + segment_scores (customer_segment user_data);
          score = (if credit_score user_data \<noteq> None \<and> credit_score user_data \<noteq> Some 0 then
                     (let cs = safe_int (credit_score user_data)
                      in if cs \<ge> 800 then score + 0.2
                         else if cs \<ge> 700 then score + 0.1
                         else if cs < 600 then score - 0.1
                         else score)
                   else score);
          income = safe_decimal_to_float (monthly_income user_data);
          score = (if income > 1500 then score + 0.1 else score);
          score = (if current_products user_data \<noteq> [] \<and> length (current_products user_data) > 0
                   then score + 0.1 else score)
      in min 1.0 (max 0.0 score))"

section \<open>Verified properties\<close>

subsection \<open>Enum lookups\<close>

lemma ConversationStep_of_value [simp]: "ConversationStep_of (step_value c) = Some c"
  by (cases c) (simp_all add: ConversationStep_of_def all_steps_def)

lemma IntentType_of_value [simp]: "IntentType_of (intent_value i) = Some i"
  by (cases i) (simp_all add: IntentType_of_def all_intents_def)

subsection \<open>Flow transitions\<close>

text \<open>
  Claim C3. From every conversation step, and whatever data has been collected, the
  transition function answers a negative intent with \<^verbatim>\<open>close_negative\<close>: the
  check on the intent comes before every rule that looks at the step.
\<close>

theorem negative_intent_global_override:
  "get_next_step (step_value current) (intent_value NEGATIVE) collected_data
     = step_value CLOSE_NEGATIVE"
  by (simp add: get_next_step_def del: intent_value.simps step_value.simps)

text \<open>
  Claim C4. At \<^verbatim>\<open>collect_income\<close>, under any intent other than the negative one,
  the transition goes to \<^verbatim>\<open>collect_employment\<close> exactly when
  \<^verbatim>\<open>monthly_income\<close> is an integer or a float between 500 and 50000 (bounds
  included), and stays at \<^verbatim>\<open>collect_income\<close> otherwise: when the key is absent,
  when the value is not a number, and when the number is out of range.
\<close>

theorem collect_income_transition:
  assumes "intent_type \<noteq> NEGATIVE"
  shows "get_next_step (step_value COLLECT_INCOME) (intent_value intent_type) collected_data =
     (case collected_data ''monthly_income'' of
        Some (PyInt n) \<Rightarrow>
          if 500 \<le> n \<and> n \<le> 50000 then step_value COLLECT_EMPLOYMENT
          else step_value COLLECT_INCOME
      | Some (PyFloat x) \<Rightarrow>
          if 500 \<le> x \<and> x \<le> 50000 then step_value COLLECT_EMPLOYMENT
          else step_value COLLECT_INCOME
      | _ \<Rightarrow> step_value COLLECT_INCOME)"
proof -
  have "get_next_step (step_value COLLECT_INCOME) (intent_value intent_type) collected_data =
      (if has_valid_income collected_data then step_value COLLECT_EMPLOYMENT
       else step_value COLLECT_INCOME)"
    using assms by (simp add: get_next_step_def del: intent_value.simps step_value.simps)
  moreover have "has_valid_income collected_data =
      (case collected_data ''monthly_income'' of
         Some (PyInt n) \<Rightarrow> 500 \<le> n \<and> n \<le> 50000
       | Some (PyFloat x) \<Rightarrow> 500 \<le> x \<and> x \<le> 50000
       | _ \<Rightarrow> False)"
    by (auto simp: has_valid_income_def dict_get_def split: option.splits pyval.splits)
  ultimately show ?thesis
    by (simp split: option.splits pyval.splits)
qed

theorem collect_income_transition_witness:
  "get_next_step (step_value COLLECT_INCOME) (intent_value NEUTRAL)
      [''monthly_income'' \<mapsto> PyFloat 2500] = ''collect_employment''
   \<and> get_next_step (step_value COLLECT_INCOME) (intent_value NEUTRAL)
      [''monthly_income'' \<mapsto> PyFloat 300] = ''collect_income''"
  using collect_income_transition [of NEUTRAL "[''monthly_income'' \<mapsto> PyFloat 2500]"]
    collect_income_transition [of NEUTRAL "[''monthly_income'' \<mapsto> PyFloat 300]"]
  by simp

subsection \<open>Conversation progress\<close>

lemma completed_fields_card:
  "completed_fields d = card {f \<in> set required_fields. \<exists>v. d f = Some v \<and> v \<noteq> PyNone}"
proof -
  have "distinct required_fields" by (simp add: required_fields_def)
  then have "length (filter (\<lambda>f. dict_get d f \<noteq> PyNone) required_fields)
      = card ({f. dict_get d f \<noteq> PyNone} \<inter> set required_fields)"
    by (rule distinct_length_filter)
  moreover have "{f. dict_get d f \<noteq> PyNone} \<inter> set required_fields
      = {f \<in> set required_fields. \<exists>v. d f = Some v \<and> v \<noteq> PyNone}"
    by (auto simp: dict_get_def split: option.splits)
  ultimately show ?thesis by (simp add: completed_fields_def)
qed

lemma completed_fields_le: "completed_fields d \<le> 3"
  unfolding completed_fields_def required_fields_def
  by (rule order_trans [OF length_filter_le]) simp

text \<open>
  Claim C2, as the code has it. For a step name of the enumeration, the data completeness
  is the truncated percentage of the required fields whose value is present and not
  \<^verbatim>\<open>None\<close>: 100 for three, 66 for two, 33 for one, 0 for none. The value of a
  field is not validated.
\<close>

theorem data_completeness_truncated:
  "data_completeness (get_conversation_progress (step_value step) collected_data) =
     (let k = card {f \<in> {''monthly_income'', ''employment_type'', ''requested_amount''}.
                     \<exists>v. collected_data f = Some v \<and> v \<noteq> PyNone}
      in if k = 3 then 100 else if k = 2 then 66 else if k = 1 then 33 else 0)"
proof -
  define k where "k = completed_fields collected_data"
  have k: "k = card {f \<in> {''monthly_income'', ''employment_type'', ''requested_amount''}.
                     \<exists>v. collected_data f = Some v \<and> v \<noteq> PyNone}"
    unfolding k_def completed_fields_card by (simp add: required_fields_def)
  have "k \<le> 3" unfolding k_def by (rule completed_fields_le)
  then consider "k = 0" | "k = 1" | "k = 2" | "k = 3" by linarith
  then have "percent_of k 3 = (if k = 3 then 100 else if k = 2 then 66 else if k = 1 then 33 else 0)"
    by cases (simp_all add: percent_of_def py_int_def)
  moreover have "data_completeness (get_conversation_progress (step_value step) collected_data)
      = percent_of k 3"
    by (simp add: get_conversation_progress_def k_def required_fields_def numeral_3_eq_3)
  ultimately show ?thesis unfolding k Let_def by simp
qed

text \<open>
  With two of the three required fields collected the code reports 66, not the 67 of
  claim C2.
\<close>

theorem data_completeness_two_fields_counterexample:
  "data_completeness (get_conversation_progress ''collect_amount''
      [''monthly_income'' \<mapsto> PyFloat 2500, ''employment_type'' \<mapsto> PyStr ''employee''])
    \<noteq> 67"
  by (simp add: get_conversation_progress_def ConversationStep_of_def all_steps_def
      completed_fields_def required_fields_def dict_get_def percent_of_def py_int_def)

end
